theory Spec2Isabelle
  imports Complex_Main "HOL-Library.Word"
begin

section \<open>Exceptions\<close>

text \<open>
  Every exception the modelled code can raise is a value of \<open>error\<close>; a function that
  can raise returns \<open>error + 'a\<close>, with \<open>Inl\<close> for the exception. The constructors
  that carry a string carry the exception's message. The message of the validation
  error is built by pydantic and is not modelled.
\<close>

datatype error =
    ValidationError
  | IndexError string
  | NotImplementedError string
  | ValueError string
  | KeyError string
  | Exception string
  | TimeoutError string
  | AttributeError string
  | MemoryError string
  | OverflowError string

section \<open>Polygon (data/annotation\_types/geometry/polygon.py)\<close>

text \<open>
  \<open>Point\<close> is declared in another module; the polygon reads its two coordinates
  \<open>x\<close> and \<open>y\<close> and compares points with \<open>!=\<close>. The coordinate type is a parameter
  \<open>'a\<close>, compared with HOL equality. The fields are named \<open>point_x\<close> and \<open>point_y\<close>.
\<close>

record 'a point =
  point_x :: 'a
  point_y :: 'a

record 'a polygon =
  points :: "'a point list"

text \<open>The value of \<open>geojson.Polygon(coords)\<close>: the geometry type and the coordinates.\<close>

record 'a geojson =
  gtype :: string
  coordinates :: "'a list list list"

text \<open>
  The validator of the field \<open>points\<close>: fewer than three points are rejected. What
  the validator raises reaches the caller of the constructor as pydantic's validation
  error.
\<close>

definition is_geom_valid :: "'a point list \<Rightarrow> error + 'a point list" where
  "is_geom_valid pts =
     (if length pts < 3 then Inl ValidationError else Inr pts)"

text \<open>Construction \<open>Polygon(points=pts)\<close> runs the validator and stores what it returns.\<close>

definition Polygon :: "'a point list \<Rightarrow> error + 'a polygon" where
  "Polygon pts =
     (case is_geom_valid pts of
        Inl e \<Rightarrow> Inl e
      | Inr ps \<Rightarrow> Inr \<lparr>points = ps\<rparr>)"

text \<open>
  The property \<open>geometry\<close> mutates \<open>self.points\<close>, so it returns the polygon next to
  its value. \<open>self.points[0]\<close> raises IndexError on an empty list; \<open>self.points[-1]\<close>
  is the last element.
\<close>

definition geometry :: "'a polygon \<Rightarrow> error + ('a geojson \<times> 'a polygon)" where
  "geometry self =
     (case points self of
        [] \<Rightarrow> Inl (IndexError ''list index out of range'')
      | p0 # _ \<Rightarrow>
          let self' = (if p0 \<noteq> last (points self)
                       then self\<lparr>points := points self @ [p0]\<rparr>
                       else self)
          in Inr (\<lparr>gtype = ''Polygon'',
                   coordinates = [map (\<lambda>point. [point_x point, point_y point]) (points self')]\<rparr>,
                  self'))"

text \<open>
  \<open>n\<close> successive reads of \<open>geometry\<close> on the same object: the values returned, in
  order, and the object after the last read.
\<close>

fun geometry_times :: "nat \<Rightarrow> 'a polygon \<Rightarrow> error + ('a geojson list \<times> 'a polygon)" where
  "geometry_times 0 self = Inr ([], self)"
| "geometry_times (Suc n) self =
     (case geometry self of
        Inl e \<Rightarrow> Inl e
      | Inr (g, self') \<Rightarrow>
          (case geometry_times n self' of
             Inl e \<Rightarrow> Inl e
           | Inr (gs, self'') \<Rightarrow> Inr (g # gs, self'')))"

text \<open>
  \<open>np.zeros((height, width), dtype=np.uint8)\<close>: numpy raises ValueError for a negative
  dimension. For other dimensions it gives a \<open>height\<close> by \<open>width\<close> array of zero
  bytes, unless the array is beyond numpy's index type or the memory at hand; then it
  raises as well. Which sizes those are depends on the platform: \<open>alloc_error\<close> is a
  parameter, the exception that allocating an array of the given size raises, if any.
\<close>

definition np_zeros ::
  "(nat \<Rightarrow> nat \<Rightarrow> error option) \<Rightarrow> int \<Rightarrow> int \<Rightarrow> error + 8 word list list" where
  "np_zeros alloc_error height width =
     (if height < 0 \<or> width < 0
      then Inl (ValueError ''negative dimensions are not allowed'')
      else (case alloc_error (nat height) (nat width) of
              Some e \<Rightarrow> Inl e
            | None \<Rightarrow> Inr (replicate (nat height) (replicate (nat width) 0))))"

text \<open>\<open>raster\<close> allocates the canvas and then raises; its \<open>return\<close> is never reached.\<close>

definition raster ::
  "(nat \<Rightarrow> nat \<Rightarrow> error option) \<Rightarrow> 'a polygon \<Rightarrow> int \<Rightarrow> int \<Rightarrow> error + 8 word list list" where
  "raster alloc_error self height width =
     (case np_zeros alloc_error height width of
        Inl e \<Rightarrow> Inl e
      | Inr canvas \<Rightarrow> Inl (NotImplementedError ''''))"

section \<open>Strings\<close>

text \<open>
  A Python \<open>str\<close> is a sequence of Unicode code points. The names of roles, which
  the code upper-cases, are modelled as such: lists of natural numbers. \<open>cp\<close> gives the
  code points of a literal of ASCII characters.

  \<open>str.upper()\<close> replaces each code point by its upper-case form, which can be more
  than one code point. On ASCII it takes the letters \<open>a\<close> to \<open>z\<close> (97 to 122) to \<open>A\<close>
  to \<open>Z\<close> (32 lower) and leaves the other characters. Outside ASCII it follows the
  tables of Unicode, which are a parameter: \<open>unicode_upper c\<close> is the upper-case form
  of the code point \<open>c\<close>. \<open>s.replace(a, b)\<close> for one-character \<open>a\<close> and \<open>b\<close> maps over
  the code points.
\<close>

definition cp :: "string \<Rightarrow> nat list" where
  "cp s = map of_char s"

definition upper_cp :: "(nat \<Rightarrow> nat list) \<Rightarrow> nat \<Rightarrow> nat list" where
  "upper_cp unicode_upper c =
     (if c < 128 then (if 97 \<le> c \<and> c \<le> 122 then [c - 32] else [c])
      else unicode_upper c)"

definition upper :: "(nat \<Rightarrow> nat list) \<Rightarrow> nat list \<Rightarrow> nat list" where
  "upper unicode_upper s = concat (map (upper_cp unicode_upper) s)"

definition replace_cp :: "nat \<Rightarrow> nat \<Rightarrow> nat list \<Rightarrow> nat list" where
  "replace_cp a b s = map (\<lambda>c. if c = a then b else c) s"

definition space :: nat where
  "space = of_char (CHR '' '')"

definition underscore :: nat where
  "underscore = of_char (CHR ''_'')"

text \<open>\<open>str(i)\<close> for a Python integer, as an f-string interpolates it.\<close>

fun str_nat :: "nat \<Rightarrow> string" where
  "str_nat n =
     (if n < 10 then [''0123456789'' ! n]
      else str_nat (n div 10) @ [''0123456789'' ! (n mod 10)])"

definition str_int :: "int \<Rightarrow> string" where
  "str_int i = (if i < 0 then CHR ''-'' # str_nat (nat (- i)) else str_nat (nat i))"

definition newline :: string where
  "newline = [CHR 0x0A]"

section \<open>The client and the remote service\<close>

text \<open>
  \<open>client.execute(query, params)\<close> sends a request and returns the response mapping, or
  raises. A request is the query string and its variables (\<open>None\<close> when none are
  passed). The responses the modelled code reads have three shapes:
  \<open>{'roles': [{'id': .., 'name': ..}, ..]}\<close>, \<open>{key: task_id}\<close> and
  \<open>{key: {'status': .., 'errorMessage': ..}}\<close>; reading a key that a response does not
  have under that shape is a KeyError.

  A client is the answer of the remote service to a request, given the requests the
  process has sent before. The state of the process is the function attribute
  \<open>_get_roles.roles\<close> (absent until it is first assigned) and the requests sent so far.
\<close>

datatype param = PStr string | PList "string list" | PDict "(string \<times> param) list"

type_synonym request = "string \<times> (string \<times> param) list option"

record role_result =
  result_id :: string
  result_name :: "nat list"

record status_result =
  status :: string
  errorMessage :: "string option"

datatype response =
    Roles_response "role_result list"
  | Task_response string string
  | Status_response string status_result

type_synonym client = "request list \<Rightarrow> request \<Rightarrow> error + response"

record process =
  roles_attr :: "response option"
  sent :: "request list"

definition execute :: "client \<Rightarrow> request \<Rightarrow> process \<Rightarrow> (error + response) \<times> process" where
  "execute cl req st = (cl (sent st) req, st\<lparr>sent := sent st @ [req]\<rparr>)"

fun get_roles_key :: "response \<Rightarrow> error + role_result list" where
  "get_roles_key (Roles_response results) = Inr results"
| "get_roles_key _ = Inl (KeyError ''roles'')"

fun get_task_key :: "response \<Rightarrow> string \<Rightarrow> error + string" where
  "get_task_key (Task_response k task_id) key =
     (if k = key then Inr task_id else Inl (KeyError key))"
| "get_task_key _ key = Inl (KeyError key)"

fun get_status_key :: "response \<Rightarrow> string \<Rightarrow> error + status_result" where
  "get_status_key (Status_response k res) key =
     (if k = key then Inr res else Inl (KeyError key))"
| "get_status_key _ key = Inl (KeyError key)"

section \<open>Roles (schema/role.py)\<close>

definition roles_query_str :: string where
  "roles_query_str = ''query GetAvailableUserRolesPyApi { roles { id name } }''"

text \<open>
  \<open>_get_roles\<close>: the remote query is made when the function has no attribute \<open>roles\<close>,
  and the attribute is assigned when \<open>client.execute\<close> returns; when it raises, the
  exception leaves the function before the assignment.
\<close>

definition get_roles :: "client \<Rightarrow> process \<Rightarrow> (error + response) \<times> process" where
  "get_roles cl st =
     (case roles_attr st of
        None \<Rightarrow>
          (case execute cl (roles_query_str, None) st of
             (Inl e, st') \<Rightarrow> (Inl e, st')
           | (Inr res, st') \<Rightarrow> (Inr res, st'\<lparr>roles_attr := Some res\<rparr>))
      | Some res \<Rightarrow> (Inr res, st))"

text \<open>Successive calls of \<open>_get_roles\<close>, one for each client of the list, in order.\<close>

fun get_roles_calls :: "client list \<Rightarrow> process \<Rightarrow> (error + response) list \<times> process" where
  "get_roles_calls [] st = ([], st)"
| "get_roles_calls (cl # cls) st =
     (case get_roles cl st of
        (r, st') \<Rightarrow> (case get_roles_calls cls st' of (rs, st'') \<Rightarrow> (r # rs, st'')))"

text \<open>
  \<open>Role\<close> is a \<open>DbObject\<close>, declared in another module: it is built from the client and
  a result mapping, whose \<open>id\<close> and \<open>name\<close> it keeps.
\<close>

record role =
  role_client :: client
  role_uid :: string
  role_name :: "nat list"

definition Role :: "client \<Rightarrow> role_result \<Rightarrow> role" where
  "Role cl result =
     \<lparr>role_client = cl, role_uid = result_id result, role_name = result_name result\<rparr>"

text \<open>
  A \<open>Roles\<close> object: the attributes that \<open>setattr\<close> has put on it, by name, and
  \<open>valid_roles\<close>.
\<close>

record roles =
  attrs :: "nat list \<rightharpoonup> role"
  valid_roles :: "nat list set"

text \<open>
  The loop of \<open>Roles.__init__\<close> over \<open>res['roles']\<close>. It assigns to \<open>result['name']\<close>,
  so it returns the results as it leaves them, next to the attributes set and the names
  collected.
\<close>

fun roles_loop ::
  "(nat \<Rightarrow> nat list) \<Rightarrow> client \<Rightarrow> role_result list \<Rightarrow> (nat list \<rightharpoonup> role) \<times> nat list set
     \<Rightarrow> ((nat list \<rightharpoonup> role) \<times> nat list set) \<times> role_result list" where
  "roles_loop unicode_upper cl [] acc = (acc, [])"
| "roles_loop unicode_upper cl (result # rest) (as, valid) =
     (let name' = replace_cp space underscore (upper unicode_upper (result_name result));
          result' = result\<lparr>result_name := name'\<rparr>
      in case roles_loop unicode_upper cl rest
                (as(name' \<mapsto> Role cl result'), insert name' valid) of
           (acc', rest') \<Rightarrow> (acc', result' # rest'))"

text \<open>
  \<open>Roles(client)\<close>. The results that the loop changes are the ones held by
  \<open>_get_roles.roles\<close>, so the attribute holds the changed results afterwards.
\<close>

definition Roles :: "(nat \<Rightarrow> nat list) \<Rightarrow> client \<Rightarrow> process \<Rightarrow> (error + roles) \<times> process" where
  "Roles unicode_upper cl st =
     (case get_roles cl st of
        (Inl e, st') \<Rightarrow> (Inl e, st')
      | (Inr res, st') \<Rightarrow>
          (case get_roles_key res of
             Inl e \<Rightarrow> (Inl e, st')
           | Inr results \<Rightarrow>
               (case roles_loop unicode_upper cl results (Map.empty, {}) of
                  ((as, valid), results') \<Rightarrow>
                    (Inr \<lparr>attrs = as, valid_roles = valid\<rparr>,
                     st'\<lparr>roles_attr := Some (Roles_response results')\<rparr>))))"






section \<open>ModelRun (schema/model\_run.py)\<close>

text \<open>A \<open>ModelRun\<close> is a \<open>DbObject\<close>: it holds its client and its \<open>uid\<close>.\<close>

record model_run =
  client :: client
  uid :: string

text \<open>
  The budget \<open>timeout_seconds\<close> is documented as a float, and an int is taken as
  well; \<open>sleep_time\<close> is a number too. The loop subtracts one from the other, compares
  the budget with 0, writes it into a message and passes the sleeping time to
  \<open>time.sleep\<close>. What these do on the numbers of Python is a parameter of the model: a
  type \<open>'b\<close> of numbers with
  \<^item> \<open>num_minus x y\<close>, the value of \<open>x - y\<close> or the exception it raises (an int too
    large for a float),
  \<^item> \<open>num_le_zero x\<close>, whether \<open>x <= 0\<close>,
  \<^item> \<open>num_str x\<close>, the text an f-string writes for \<open>x\<close>,
  \<^item> \<open>num_sleep x\<close>, the exception that \<open>time.sleep(x)\<close> raises, if any (time
    passing is not modelled),
  \<^item> \<open>num_literal i\<close>, the number that an integer literal denotes.
  Nothing is assumed of them: on floats a subtraction may leave the budget as it was,
  and the budget may never be at most 0.
\<close>

record 'b number_ops =
  num_minus :: "'b \<Rightarrow> 'b \<Rightarrow> error + 'b"
  num_le_zero :: "'b \<Rightarrow> bool"
  num_str :: "'b \<Rightarrow> string"
  num_sleep :: "'b \<Rightarrow> error option"
  num_literal :: "int \<Rightarrow> 'b"

text \<open>
  The operations on Python integers, which are exact. \<open>time.sleep\<close> refuses a negative
  argument and one too large for its clock; the largest it takes depends on the
  platform and is the parameter \<open>max_sleep\<close>.
\<close>

definition int_ops :: "int \<Rightarrow> int number_ops" where
  "int_ops max_sleep =
     \<lparr>num_minus = (\<lambda>x y. Inr (x - y)),
      num_le_zero = (\<lambda>x. x \<le> 0),
      num_str = str_int,
      num_sleep = (\<lambda>x. if x < 0 then Some (ValueError ''sleep length must be non-negative'')
                        else if max_sleep < x
                        then Some (OverflowError ''timestamp too large to convert to C _PyTime_t'')
                        else None),
      num_literal = (\<lambda>i. i)\<rparr>"

text \<open>
  \<open>_wait_until_done\<close>. \<open>status_fn\<close> is a call with an effect on the world \<open>'w\<close>, and
  it may raise. The loop has no bound of its own, so that not returning is \<open>None\<close>.
  The f-string writes a missing error message as \<open>None\<close>.
\<close>

partial_function (option) wait_until_done ::
  "'b number_ops \<Rightarrow> ('w \<Rightarrow> (error + status_result) \<times> 'w) \<Rightarrow> 'b \<Rightarrow> 'b \<Rightarrow> 'w
     \<Rightarrow> ((error + bool) \<times> 'w) option" where
  "wait_until_done ops status_fn timeout_seconds sleep_time w =
     (case status_fn w of
        (Inl e, w') \<Rightarrow> Some (Inl e, w')
      | (Inr res, w') \<Rightarrow>
          if status res = ''COMPLETE'' then Some (Inr True, w')
          else if status res = ''FAILED''
          then Some (Inl (Exception (''MEA Import Failed. Details : ''
                 @ (case errorMessage res of None \<Rightarrow> ''None'' | Some m \<Rightarrow> m))), w')
          else (case num_minus ops timeout_seconds sleep_time of
                  Inl e \<Rightarrow> Some (Inl e, w')
                | Inr timeout_seconds' \<Rightarrow>
                    if num_le_zero ops timeout_seconds'
                    then Some (Inl (TimeoutError (''Unable to complete import within ''
                           @ num_str ops timeout_seconds' @ '' seconds.'')), w')
                    else (case num_sleep ops sleep_time of
                            Some e \<Rightarrow> Some (Inl e, w')
                          | None \<Rightarrow>
                              wait_until_done ops status_fn timeout_seconds' sleep_time w')))"

text \<open>The world after \<open>n\<close> calls of \<open>status_fn\<close>.\<close>

definition polls :: "('w \<Rightarrow> (error + status_result) \<times> 'w) \<Rightarrow> nat \<Rightarrow> 'w \<Rightarrow> 'w" where
  "polls status_fn n w = ((\<lambda>v. snd (status_fn v)) ^^ n) w"

text \<open>
  The budget after \<open>k\<close> iterations: \<open>timeout_seconds\<close> less \<open>sleep_time\<close>, \<open>k\<close>
  times over, or the exception of the first subtraction that raises.
\<close>

fun budget :: "'b number_ops \<Rightarrow> 'b \<Rightarrow> 'b \<Rightarrow> nat \<Rightarrow> error + 'b" where
  "budget ops timeout_seconds sleep_time 0 = Inr timeout_seconds"
| "budget ops timeout_seconds sleep_time (Suc k) =
     (case budget ops timeout_seconds sleep_time k of
        Inl e \<Rightarrow> Inl e
      | Inr b \<Rightarrow> num_minus ops b sleep_time)"

text \<open>
  A run that never ends: no call returns a final status, the budget is never at most 0,
  and neither the subtraction nor the sleep raises.
\<close>

definition never_expires ::
  "'b number_ops \<Rightarrow> ('w \<Rightarrow> (error + status_result) \<times> 'w) \<Rightarrow> 'b \<Rightarrow> 'b \<Rightarrow> 'w \<Rightarrow> bool" where
  "never_expires ops status_fn t s w =
     ((\<forall>j. \<exists>r. fst (status_fn (polls status_fn j w)) = Inr r
            \<and> status r \<noteq> ''COMPLETE'' \<and> status r \<noteq> ''FAILED'')
      \<and> (\<forall>j. \<exists>b. budget ops t s (Suc j) = Inr b \<and> \<not> num_le_zero ops b)
      \<and> num_sleep ops s = None)"

text \<open>
  The status function that \<open>upsert_labels\<close> and \<open>upsert_data_rows\<close> pass: it executes
  the status query for the task and reads the entry \<open>key\<close> of the response.
\<close>

definition task_status_fn ::
  "client \<Rightarrow> string \<Rightarrow> string \<Rightarrow> string \<Rightarrow> process \<Rightarrow> (error + status_result) \<times> process" where
  "task_status_fn cl status_query_str key task_id st =
     (case execute cl (status_query_str, Some [(''where'', PDict [(''id'', PStr task_id)])]) st of
        (Inl e, st') \<Rightarrow> (Inl e, st')
      | (Inr res, st') \<Rightarrow> (get_status_key res key, st'))"

definition upsert_labels ::
  "'b number_ops \<Rightarrow> model_run \<Rightarrow> string list \<Rightarrow> 'b \<Rightarrow> process
     \<Rightarrow> ((error + bool) \<times> process) option" where
  "upsert_labels ops self label_ids timeout_seconds st =
     (if length label_ids < 1
      then Some (Inl (ValueError ''Must provide at least one label id''), st)
      else
        let mutation_name = ''createMEAModelRunLabelRegistrationTask'';
            create_task_query_str =
              ''mutation createMEAModelRunLabelRegistrationTaskPyApi($modelRunId: ID!, $labelIds : [ID!]!) {''
              @ newline @ ''          '' @ mutation_name
              @ ''(where : { id : $modelRunId}, data : {labelIds: $labelIds})}''
              @ newline @ ''          '';
            status_query_str =
              ''query MEALabelRegistrationTaskStatusPyApi($where: WhereUniqueIdInput!){''
              @ newline @ ''            MEALabelRegistrationTaskStatus(where: $where) {status errorMessage}''
              @ newline @ ''        }'' @ newline @ ''        ''
        in case execute (client self)
                  (create_task_query_str,
                   Some [(''modelRunId'', PStr (uid self)), (''labelIds'', PList label_ids)]) st of
             (Inl e, st') \<Rightarrow> Some (Inl e, st')
           | (Inr res, st') \<Rightarrow>
               (case get_task_key res mutation_name of
                  Inl e \<Rightarrow> Some (Inl e, st')
                | Inr task_id \<Rightarrow>
                    wait_until_done ops
                      (task_status_fn (client self) status_query_str
                         ''MEALabelRegistrationTaskStatus'' task_id)
                      timeout_seconds (num_literal ops 5) st'))"

definition upsert_data_rows ::
  "'b number_ops \<Rightarrow> model_run \<Rightarrow> string list \<Rightarrow> 'b \<Rightarrow> process
     \<Rightarrow> ((error + bool) \<times> process) option" where
  "upsert_data_rows ops self data_row_ids timeout_seconds st =
     (if length data_row_ids < 1
      then Some (Inl (ValueError ''Must provide at least one data row id''), st)
      else
        let mutation_name = ''createMEAModelRunDataRowRegistrationTask'';
            create_task_query_str =
              ''mutation createMEAModelRunDataRowRegistrationTaskPyApi($modelRunId: ID!, $dataRowIds : [ID!]!) {''
              @ newline @ ''          '' @ mutation_name
              @ ''(where : { id : $modelRunId}, data : {dataRowIds: $dataRowIds})}''
              @ newline @ ''          '';
            status_query_str =
              ''query MEADataRowRegistrationTaskStatusPyApi($where: WhereUniqueIdInput!){''
              @ newline @ ''            MEADataRowRegistrationTaskStatus(where: $where) {status errorMessage}''
              @ newline @ ''        }'' @ newline @ ''        ''
        in case execute (client self)
                  (create_task_query_str,
                   Some [(''modelRunId'', PStr (uid self)), (''dataRowIds'', PList data_row_ids)]) st of
             (Inl e, st') \<Rightarrow> Some (Inl e, st')
           | (Inr res, st') \<Rightarrow>
               (case get_task_key res mutation_name of
                  Inl e \<Rightarrow> Some (Inl e, st')
                | Inr task_id \<Rightarrow>
                    wait_until_done ops
                      (task_status_fn (client self) status_query_str
                         ''MEADataRowRegistrationTaskStatus'' task_id)
                      timeout_seconds (num_literal ops 5) st'))"

text \<open>
  \<open>add_predictions\<close> tests the type of its argument. A value of the argument is a
  \<open>str\<close>, a \<open>Path\<close> (with the string \<open>str\<close> gives for it), another \<open>Iterable\<close> (with
  its rows), or a value of any other type (with the name of its type).
  \<open>MEAPredictionImport\<close> is declared in another module; the call that
  \<open>add_predictions\<close> makes to it is the result. \<open>os.path.exists\<close> is a parameter.
\<close>

datatype 'row predictions =
    Str string
  | Path string
  | Iterable "'row list"
  | Other string

record import_kwargs =
  kw_client :: client
  kw_model_run_id :: string
  kw_name :: string

datatype 'row import_call =
    Create_from_file string import_kwargs
  | Create_from_url string import_kwargs
  | Create_from_objects "'row list" import_kwargs

definition type_repr :: "string \<Rightarrow> string" where
  "type_repr type_name = ''<class '' @ [CHR 0x27] @ type_name @ [CHR 0x27] @ ''>''"

fun add_predictions ::
  "(string \<Rightarrow> bool) \<Rightarrow> model_run \<Rightarrow> string \<Rightarrow> 'row predictions \<Rightarrow> error + 'row import_call" where
  "add_predictions path_exists self name (Str s) =
     (let kwargs = \<lparr>kw_client = client self, kw_model_run_id = uid self, kw_name = name\<rparr>
      in if path_exists s then Inr (Create_from_file s kwargs)
         else Inr (Create_from_url s kwargs))"
| "add_predictions path_exists self name (Path s) =
     (let kwargs = \<lparr>kw_client = client self, kw_model_run_id = uid self, kw_name = name\<rparr>
      in if path_exists s then Inr (Create_from_file s kwargs)
         else Inr (Create_from_url s kwargs))"
| "add_predictions path_exists self name (Iterable rows) =
     (let kwargs = \<lparr>kw_client = client self, kw_model_run_id = uid self, kw_name = name\<rparr>
      in Inr (Create_from_objects rows kwargs))"
| "add_predictions path_exists self name (Other type_name) =
     Inl (ValueError (''Invalid predictions given of type: '' @ type_repr type_name))"

section \<open>Properties of Polygon\<close>

lemma Polygon_accepts: "3 \<le> length pts \<Longrightarrow> Polygon pts = Inr \<lparr>points = pts\<rparr>"
  by (simp add: Polygon_def is_geom_valid_def)

lemma Polygon_rejects: "length pts < 3 \<Longrightarrow> Polygon pts = Inl ValidationError"
  by (simp add: Polygon_def is_geom_valid_def)

lemma Polygon_InrD: "Polygon pts = Inr p \<Longrightarrow> 3 \<le> length pts \<and> p = \<lparr>points = pts\<rparr>"
  by (auto simp: Polygon_def is_geom_valid_def split: if_splits)

lemma geometry_nonempty:
  "points self \<noteq> [] \<Longrightarrow>
   geometry self =
     (let self' = (if hd (points self) \<noteq> last (points self)
                   then self\<lparr>points := points self @ [hd (points self)]\<rparr>
                   else self)
      in Inr (\<lparr>gtype = ''Polygon'',
               coordinates = [map (\<lambda>point. [point_x point, point_y point]) (points self')]\<rparr>,
              self'))"
  by (cases "points self") (simp_all add: geometry_def)

lemma geometry_closed_fixed:
  "points self \<noteq> [] \<Longrightarrow> hd (points self) = last (points self) \<Longrightarrow>
   geometry self =
     Inr (\<lparr>gtype = ''Polygon'',
           coordinates = [map (\<lambda>point. [point_x point, point_y point]) (points self)]\<rparr>,
          self)"
  by (simp add: geometry_nonempty)

lemma geometry_result_closed:
  assumes "geometry self = Inr (g, self')"
  shows "points self' \<noteq> [] \<and> hd (points self') = last (points self')
         \<and> length (points self') \<le> Suc (length (points self))
         \<and> g = \<lparr>gtype = ''Polygon'',
                 coordinates = [map (\<lambda>point. [point_x point, point_y point]) (points self')]\<rparr>"
proof (cases "points self")
  case Nil
  with assms show ?thesis by (simp add: geometry_def)
next
  case (Cons p0 rest)
  then have ne: "points self \<noteq> []" by simp
  show ?thesis
  proof (cases "hd (points self) = last (points self)")
    case True
    with assms ne show ?thesis
      by (auto simp: geometry_closed_fixed)
  next
    case False
    with assms ne have "self' = self\<lparr>points := points self @ [hd (points self)]\<rparr>"
      and "g = \<lparr>gtype = ''Polygon'',
                coordinates = [map (\<lambda>point. [point_x point, point_y point])
                                   (points self @ [hd (points self)])]\<rparr>"
      by (simp_all add: geometry_nonempty)
    with ne show ?thesis by simp
  qed
qed

lemma geometry_times_fixed:
  "geometry self = Inr (g, self) \<Longrightarrow> geometry_times n self = Inr (replicate n g, self)"
  by (induction n) simp_all

section \<open>Claims about Polygon\<close>

text \<open>
  Claim C1. A polygon constructed from at least three points exists, and reading
  \<open>geometry\<close> on it stores the closed ring: the first point is appended when the last
  point differs from it, and nothing changes otherwise, so that the stored sequence ends
  with its first point. The value returned is the GeoJSON polygon whose coordinates are
  the one ring \<open>[[x, y], ...]\<close> of the stored, closed sequence.
\<close>

theorem geometry_closes_ring:
  assumes "3 \<le> length pts"
  shows "\<exists>p g p'. Polygon pts = Inr p \<and> geometry p = Inr (g, p')
           \<and> points p' = (if last pts \<noteq> hd pts then pts @ [hd pts] else pts)
           \<and> last (points p') = hd (points p')
           \<and> g = \<lparr>gtype = ''Polygon'',
                   coordinates = [map (\<lambda>point. [point_x point, point_y point]) (points p')]\<rparr>"
proof -
  from assms have ne: "pts \<noteq> []" by auto
  have c: "Polygon pts = Inr \<lparr>points = pts\<rparr>"
    using assms by (rule Polygon_accepts)
  show ?thesis
  proof (cases "last pts \<noteq> hd pts")
    case True
    with ne have "geometry \<lparr>points = pts\<rparr> =
        Inr (\<lparr>gtype = ''Polygon'',
              coordinates = [map (\<lambda>point. [point_x point, point_y point]) (pts @ [hd pts])]\<rparr>,
             \<lparr>points = pts @ [hd pts]\<rparr>)"
      by (simp add: geometry_nonempty)
    with c True ne show ?thesis by simp
  next
    case False
    with ne have "geometry \<lparr>points = pts\<rparr> =
        Inr (\<lparr>gtype = ''Polygon'',
              coordinates = [map (\<lambda>point. [point_x point, point_y point]) pts]\<rparr>,
             \<lparr>points = pts\<rparr>)"
      by (simp add: geometry_nonempty)
    with c False ne show ?thesis by simp
  qed
qed

theorem geometry_closes_ring_witness:
  "Polygon [\<lparr>point_x = 0::int, point_y = 0\<rparr>, \<lparr>point_x = 4, point_y = 0\<rparr>, \<lparr>point_x = 4, point_y = 3\<rparr>]
     = Inr \<lparr>points = [\<lparr>point_x = 0, point_y = 0\<rparr>, \<lparr>point_x = 4, point_y = 0\<rparr>, \<lparr>point_x = 4, point_y = 3\<rparr>]\<rparr>
   \<and> geometry \<lparr>points = [\<lparr>point_x = 0::int, point_y = 0\<rparr>, \<lparr>point_x = 4, point_y = 0\<rparr>, \<lparr>point_x = 4, point_y = 3\<rparr>]\<rparr>
     = Inr (\<lparr>gtype = ''Polygon'', coordinates = [[[0, 0], [4, 0], [4, 3], [0, 0]]]\<rparr>,
            \<lparr>points = [\<lparr>point_x = 0, point_y = 0\<rparr>, \<lparr>point_x = 4, point_y = 0\<rparr>,
                       \<lparr>point_x = 4, point_y = 3\<rparr>, \<lparr>point_x = 0, point_y = 0\<rparr>]\<rparr>)"
proof -
  let ?pts = "[\<lparr>point_x = 0::int, point_y = 0\<rparr>, \<lparr>point_x = 4, point_y = 0\<rparr>, \<lparr>point_x = 4, point_y = 3\<rparr>]"
  have len: "3 \<le> length ?pts" by simp
  from geometry_closes_ring [OF len] obtain p g p' where
    c: "Polygon ?pts = Inr p" and first: "geometry p = Inr (g, p')"
    and closed: "points p' = ?pts @ [\<lparr>point_x = 0, point_y = 0\<rparr>]"
    and g: "g = \<lparr>gtype = ''Polygon'',
                 coordinates = [map (\<lambda>point. [point_x point, point_y point]) (points p')]\<rparr>"
    by auto
  from c have p: "p = \<lparr>points = ?pts\<rparr>"
    by (simp add: Polygon_def is_geom_valid_def)
  from closed have "p' = \<lparr>points = ?pts @ [\<lparr>point_x = 0, point_y = 0\<rparr>]\<rparr>" by simp
  with c first g p show ?thesis by simp
qed

text \<open>
  Claim C2. Constructing a polygon from fewer than three points (zero, one or two)
  fails with the validation error; it never gives a polygon.
\<close>

theorem Polygon_too_few_points:
  assumes "length pts < 3"
  shows "Polygon pts = Inl ValidationError \<and> (\<forall>p. Polygon pts \<noteq> Inr p)"
  using assms by (simp add: Polygon_def is_geom_valid_def)

theorem Polygon_too_few_points_witness:
  "Polygon ([] :: int point list) = Inl ValidationError
   \<and> Polygon [\<lparr>point_x = 1::int, point_y = 2\<rparr>] = Inl ValidationError
   \<and> Polygon [\<lparr>point_x = 1::int, point_y = 2\<rparr>, \<lparr>point_x = 3, point_y = 4\<rparr>] = Inl ValidationError"
  using Polygon_too_few_points [of "[] :: int point list"]
    Polygon_too_few_points [of "[\<lparr>point_x = 1::int, point_y = 2\<rparr>]"]
    Polygon_too_few_points [of "[\<lparr>point_x = 1::int, point_y = 2\<rparr>, \<lparr>point_x = 3, point_y = 4\<rparr>]"]
  by simp

text \<open>
  Claim C3 says that a constructed polygon has at least three distinct points. The
  validator counts points, not distinct points: three copies of one point construct a
  polygon whose points are one distinct point.
\<close>

theorem Polygon_distinct_counterexample:
  "Polygon [\<lparr>point_x = 0::int, point_y = 0\<rparr>, \<lparr>point_x = 0, point_y = 0\<rparr>, \<lparr>point_x = 0, point_y = 0\<rparr>]
     = Inr \<lparr>points = [\<lparr>point_x = 0, point_y = 0\<rparr>, \<lparr>point_x = 0, point_y = 0\<rparr>, \<lparr>point_x = 0, point_y = 0\<rparr>]\<rparr>
   \<and> card (set [\<lparr>point_x = 0::int, point_y = 0\<rparr>, \<lparr>point_x = 0, point_y = 0\<rparr>, \<lparr>point_x = 0, point_y = 0\<rparr>]) = 1"
  by (simp add: Polygon_def is_geom_valid_def)

text \<open>
  Claim C3, amended. A constructed polygon stores the sequence it was given, of at least
  three points (which need not be distinct); construction rejects a sequence exactly
  when it has fewer than three points.
\<close>

theorem Polygon_at_least_three_points:
  "(Polygon pts = Inr p \<longrightarrow> points p = pts \<and> 3 \<le> length (points p))
   \<and> (length pts < 3 \<longrightarrow> Polygon pts = Inl ValidationError)
   \<and> (3 \<le> length pts \<longrightarrow> Polygon pts = Inr \<lparr>points = pts\<rparr>)"
  by (auto simp: Polygon_def is_geom_valid_def)

theorem Polygon_at_least_three_points_witness:
  "Polygon [\<lparr>point_x = 0::int, point_y = 0\<rparr>, \<lparr>point_x = 0, point_y = 0\<rparr>, \<lparr>point_x = 0, point_y = 0\<rparr>]
     = Inr \<lparr>points = [\<lparr>point_x = 0, point_y = 0\<rparr>, \<lparr>point_x = 0, point_y = 0\<rparr>, \<lparr>point_x = 0, point_y = 0\<rparr>]\<rparr>
   \<and> length (points \<lparr>points = [\<lparr>point_x = 0::int, point_y = 0\<rparr>, \<lparr>point_x = 0, point_y = 0\<rparr>, \<lparr>point_x = 0, point_y = 0\<rparr>]\<rparr>) = 3
   \<and> Polygon [\<lparr>point_x = 0::int, point_y = 0\<rparr>, \<lparr>point_x = 1, point_y = 1\<rparr>] = Inl ValidationError"
  using Polygon_at_least_three_points [of "[\<lparr>point_x = 0::int, point_y = 0\<rparr>, \<lparr>point_x = 0, point_y = 0\<rparr>, \<lparr>point_x = 0, point_y = 0\<rparr>]"
      "\<lparr>points = [\<lparr>point_x = 0::int, point_y = 0\<rparr>, \<lparr>point_x = 0, point_y = 0\<rparr>, \<lparr>point_x = 0, point_y = 0\<rparr>]\<rparr>"]
    Polygon_at_least_three_points [of "[\<lparr>point_x = 0::int, point_y = 0\<rparr>, \<lparr>point_x = 1, point_y = 1\<rparr>]" undefined]
  by simp

text \<open>
  Claim C8 says that \<open>raster\<close> raises NotImplementedError for every height and width.
  The canvas is allocated first, and for a negative dimension that allocation raises
  ValueError, whatever the platform allows for the others.
\<close>

theorem raster_negative_counterexample:
  "raster (\<lambda>h w. None) \<lparr>points = [\<lparr>point_x = 0::int, point_y = 0\<rparr>, \<lparr>point_x = 4, point_y = 0\<rparr>, \<lparr>point_x = 4, point_y = 3\<rparr>]\<rparr> (- 1) 5
     = Inl (ValueError ''negative dimensions are not allowed'')
   \<and> ValueError ''negative dimensions are not allowed'' \<noteq> NotImplementedError ''''"
  by (simp add: raster_def np_zeros_def)

text \<open>
  Claim C8, amended. \<open>raster\<close> never returns a canvas. It raises NotImplementedError
  whenever the allocation of the canvas succeeds: the height and the width are not
  negative and an array of that size can be allocated. When the allocation fails, its
  exception is raised instead: ValueError for a negative height or width, and the
  exception of the allocator for a size it refuses.
\<close>

theorem raster_never_returns:
  "(0 \<le> height \<and> 0 \<le> width \<and> alloc_error (nat height) (nat width) = None \<longrightarrow>
      raster alloc_error self height width = Inl (NotImplementedError ''''))
   \<and> (height < 0 \<or> width < 0 \<longrightarrow>
        raster alloc_error self height width = Inl (ValueError ''negative dimensions are not allowed''))
   \<and> (0 \<le> height \<and> 0 \<le> width \<and> alloc_error (nat height) (nat width) = Some e \<longrightarrow>
        raster alloc_error self height width = Inl e)
   \<and> (\<forall>canvas. raster alloc_error self height width \<noteq> Inr canvas)"
  by (auto simp: raster_def np_zeros_def split: option.splits)

theorem raster_never_returns_witness:
  "raster (\<lambda>h w. if 2 ^ 31 < h * w then Some (MemoryError ''Unable to allocate array'') else None) \<lparr>points = [\<lparr>point_x = 0::int, point_y = 0\<rparr>, \<lparr>point_x = 4, point_y = 0\<rparr>, \<lparr>point_x = 4, point_y = 3\<rparr>]\<rparr> 2 3 = Inl (NotImplementedError '''')
   \<and> raster (\<lambda>h w. if 2 ^ 31 < h * w then Some (MemoryError ''Unable to allocate array'') else None) \<lparr>points = [\<lparr>point_x = 0::int, point_y = 0\<rparr>, \<lparr>point_x = 4, point_y = 0\<rparr>, \<lparr>point_x = 4, point_y = 3\<rparr>]\<rparr> 2 (- 3) = Inl (ValueError ''negative dimensions are not allowed'')
   \<and> raster (\<lambda>h w. if 2 ^ 31 < h * w then Some (MemoryError ''Unable to allocate array'') else None) \<lparr>points = [\<lparr>point_x = 0::int, point_y = 0\<rparr>, \<lparr>point_x = 4, point_y = 0\<rparr>, \<lparr>point_x = 4, point_y = 3\<rparr>]\<rparr> (2 ^ 20) (2 ^ 20) = Inl (MemoryError ''Unable to allocate array'')"
  using raster_never_returns [where height = 2 and width = 3 and self = "\<lparr>points = [\<lparr>point_x = 0::int, point_y = 0\<rparr>, \<lparr>point_x = 4, point_y = 0\<rparr>, \<lparr>point_x = 4, point_y = 3\<rparr>]\<rparr>" and alloc_error = "(\<lambda>h w. if 2 ^ 31 < h * w then Some (MemoryError ''Unable to allocate array'') else None)"]
    raster_never_returns [where height = 2 and width = "- 3" and self = "\<lparr>points = [\<lparr>point_x = 0::int, point_y = 0\<rparr>, \<lparr>point_x = 4, point_y = 0\<rparr>, \<lparr>point_x = 4, point_y = 3\<rparr>]\<rparr>" and alloc_error = "(\<lambda>h w. if 2 ^ 31 < h * w then Some (MemoryError ''Unable to allocate array'') else None)"]
    raster_never_returns [where height = "2 ^ 20" and width = "2 ^ 20" and self = "\<lparr>points = [\<lparr>point_x = 0::int, point_y = 0\<rparr>, \<lparr>point_x = 4, point_y = 0\<rparr>, \<lparr>point_x = 4, point_y = 3\<rparr>]\<rparr>" and alloc_error = "(\<lambda>h w. if 2 ^ 31 < h * w then Some (MemoryError ''Unable to allocate array'') else None)"
      and e = "MemoryError ''Unable to allocate array''"]
  by simp

text \<open>
  Claim C9. Ring closure is idempotent: on a constructed polygon the first read of
  \<open>geometry\<close> adds at most one point, and any number of further reads return the value
  of the first read and leave the stored points as the first read left them.
\<close>

theorem geometry_idempotent:
  assumes "Polygon pts = Inr p"
  shows "\<exists>g p'. geometry p = Inr (g, p')
           \<and> length (points p') \<le> Suc (length pts)
           \<and> (\<forall>n. geometry_times n p' = Inr (replicate n g, p'))"
proof -
  from assms have p: "p = \<lparr>points = pts\<rparr>" and len: "3 \<le> length pts"
    by (simp_all add: Polygon_InrD)
  then have ne: "points p \<noteq> []" by auto
  then obtain g p' where first: "geometry p = Inr (g, p')"
    by (auto simp: geometry_nonempty Let_def)
  from geometry_result_closed [OF first]
  have ne': "points p' \<noteq> []" and closed: "hd (points p') = last (points p')"
    and grow: "length (points p') \<le> Suc (length (points p))"
    and g: "g = \<lparr>gtype = ''Polygon'',
                 coordinates = [map (\<lambda>point. [point_x point, point_y point]) (points p')]\<rparr>"
    by simp_all
  have again: "geometry p' = Inr (g, p')"
    using geometry_closed_fixed [OF ne' closed] g by simp
  have "\<forall>n. geometry_times n p' = Inr (replicate n g, p')"
    using geometry_times_fixed [OF again] by simp
  with first grow p show ?thesis by auto
qed

theorem geometry_idempotent_witness:
  "geometry_times 3 \<lparr>points = [\<lparr>point_x = 0::int, point_y = 0\<rparr>, \<lparr>point_x = 4, point_y = 0\<rparr>, \<lparr>point_x = 4, point_y = 3\<rparr>]\<rparr>
     = Inr (replicate 3 \<lparr>gtype = ''Polygon'', coordinates = [[[0, 0], [4, 0], [4, 3], [0, 0]]]\<rparr>,
            \<lparr>points = [\<lparr>point_x = 0, point_y = 0\<rparr>, \<lparr>point_x = 4, point_y = 0\<rparr>,
                       \<lparr>point_x = 4, point_y = 3\<rparr>, \<lparr>point_x = 0, point_y = 0\<rparr>]\<rparr>)"
proof -
  let ?pts = "[\<lparr>point_x = 0::int, point_y = 0\<rparr>, \<lparr>point_x = 4, point_y = 0\<rparr>, \<lparr>point_x = 4, point_y = 3\<rparr>]"
  have c: "Polygon ?pts = Inr \<lparr>points = ?pts\<rparr>"
    by (simp add: Polygon_def is_geom_valid_def)
  from geometry_idempotent [OF c] obtain g p' where
    first: "geometry \<lparr>points = ?pts\<rparr> = Inr (g, p')"
    and rest: "\<forall>n. geometry_times n p' = Inr (replicate n g, p')"
    by blast
  from first have g: "g = \<lparr>gtype = ''Polygon'', coordinates = [[[0, 0], [4, 0], [4, 3], [0, 0]]]\<rparr>"
    and p': "p' = \<lparr>points = ?pts @ [\<lparr>point_x = 0, point_y = 0\<rparr>]\<rparr>"
    by (auto simp: geometry_def)
  from rest have two: "geometry_times 2 p' = Inr (replicate 2 g, p')" by blast
  have "geometry_times 3 \<lparr>points = ?pts\<rparr> = Inr (g # replicate 2 g, p')"
    using first two by (simp add: numeral_3_eq_3 numeral_2_eq_2)
  then show ?thesis using g p' by (simp add: numeral_3_eq_3 numeral_2_eq_2)
qed

section \<open>Properties of the string operations\<close>






section \<open>Properties of Roles\<close>








section \<open>Properties of the role cache\<close>

lemma get_roles_cached: "roles_attr st = Some res \<Longrightarrow> get_roles cl st = (Inr res, st)"
  by (simp add: get_roles_def)

lemma get_roles_fetch:
  "roles_attr st = None \<Longrightarrow> cl (sent st) (roles_query_str, None) = Inr res \<Longrightarrow>
   get_roles cl st =
     (Inr res, st\<lparr>sent := sent st @ [(roles_query_str, None)], roles_attr := Some res\<rparr>)"
  by (simp add: get_roles_def execute_def)

lemma get_roles_raise:
  "roles_attr st = None \<Longrightarrow> cl (sent st) (roles_query_str, None) = Inl e \<Longrightarrow>
   get_roles cl st = (Inl e, st\<lparr>sent := sent st @ [(roles_query_str, None)]\<rparr>)"
  by (simp add: get_roles_def execute_def)

lemma get_roles_calls_cached:
  "roles_attr st = Some res \<Longrightarrow>
   get_roles_calls cls st = (replicate (length cls) (Inr res), st)"
  by (induction cls) (simp_all add: get_roles_cached)

lemma Roles_cached_sent:
  "roles_attr st = Some res \<Longrightarrow> sent (snd (Roles unicode_upper cl st)) = sent st"
  by (simp add: Roles_def get_roles_cached split: sum.splits prod.splits)

text \<open>
  Claim C6 says that in every sequence of calls of \<open>_get_roles\<close> only the first
  invokes \<open>client.execute\<close>. When \<open>client.execute\<close> raises in the first call, nothing
  is cached: the second call sends the query again, and returns what that second query
  returned.
\<close>

theorem get_roles_retry_counterexample:
  "get_roles_calls
     [\<lambda>log req. if log = [] then Inl (Exception ''connection failed'')
                 else Inr (Roles_response [\<lparr>result_id = ''1'', result_name = cp ''Admin''\<rparr>]),
      \<lambda>log req. if log = [] then Inl (Exception ''connection failed'')
                 else Inr (Roles_response [\<lparr>result_id = ''1'', result_name = cp ''Admin''\<rparr>])]
     \<lparr>roles_attr = None, sent = []\<rparr>
   = ([Inl (Exception ''connection failed''),
       Inr (Roles_response [\<lparr>result_id = ''1'', result_name = cp ''Admin''\<rparr>])],
      \<lparr>roles_attr = Some (Roles_response [\<lparr>result_id = ''1'', result_name = cp ''Admin''\<rparr>]),
       sent = [(roles_query_str, None), (roles_query_str, None)]\<rparr>)"
  by (simp add: get_roles_def execute_def)

text \<open>
  Claim C6, amended. The role list is cached by the first call of \<open>_get_roles\<close> whose
  \<open>client.execute\<close> returns: that call sends the query once, and every later call,
  with whatever client, returns the cached response and sends nothing; nothing
  invalidates the cache, and a construction of \<open>Roles\<close> on a filled cache sends
  nothing either. A call whose \<open>client.execute\<close> raises sends the query, passes the
  exception on and caches nothing.
\<close>

theorem get_roles_fetched_once:
  "(roles_attr st = None \<and> cl (sent st) (roles_query_str, None) = Inr res \<longrightarrow>
      get_roles_calls (cl # cls) st =
        (replicate (Suc (length cls)) (Inr res),
         st\<lparr>sent := sent st @ [(roles_query_str, None)], roles_attr := Some res\<rparr>))
   \<and> (roles_attr st = None \<and> cl (sent st) (roles_query_str, None) = Inl e \<longrightarrow>
      get_roles cl st = (Inl e, st\<lparr>sent := sent st @ [(roles_query_str, None)]\<rparr>))
   \<and> (roles_attr st = Some res \<longrightarrow>
      get_roles_calls cls st = (replicate (length cls) (Inr res), st)
      \<and> sent (snd (Roles unicode_upper cl st)) = sent st)"
proof (intro conjI impI)
  assume a: "roles_attr st = None \<and> cl (sent st) (roles_query_str, None) = Inr res"
  let ?st' = "st\<lparr>sent := sent st @ [(roles_query_str, None)], roles_attr := Some res\<rparr>"
  from a have first: "get_roles cl st = (Inr res, ?st')"
    by (simp add: get_roles_fetch)
  have "roles_attr ?st' = Some res" by simp
  then have "get_roles_calls cls ?st' = (replicate (length cls) (Inr res), ?st')"
    by (rule get_roles_calls_cached)
  with first show "get_roles_calls (cl # cls) st = (replicate (Suc (length cls)) (Inr res), ?st')"
    by simp
next
  assume "roles_attr st = None \<and> cl (sent st) (roles_query_str, None) = Inl e"
  then show "get_roles cl st = (Inl e, st\<lparr>sent := sent st @ [(roles_query_str, None)]\<rparr>)"
    by (simp add: get_roles_raise)
next
  assume "roles_attr st = Some res"
  then show "get_roles_calls cls st = (replicate (length cls) (Inr res), st)"
    by (rule get_roles_calls_cached)
next
  assume "roles_attr st = Some res"
  then show "sent (snd (Roles unicode_upper cl st)) = sent st"
    by (rule Roles_cached_sent)
qed

theorem get_roles_fetched_once_witness:
  "get_roles_calls
     [\<lambda>log req. Inr (Roles_response [\<lparr>result_id = ''1'', result_name = cp ''Admin''\<rparr>]),
      \<lambda>log req. Inr (Roles_response []),
      \<lambda>log req. Inl (Exception ''connection failed'')]
     \<lparr>roles_attr = None, sent = []\<rparr>
   = ([Inr (Roles_response [\<lparr>result_id = ''1'', result_name = cp ''Admin''\<rparr>]),
       Inr (Roles_response [\<lparr>result_id = ''1'', result_name = cp ''Admin''\<rparr>]),
       Inr (Roles_response [\<lparr>result_id = ''1'', result_name = cp ''Admin''\<rparr>])],
      \<lparr>roles_attr = Some (Roles_response [\<lparr>result_id = ''1'', result_name = cp ''Admin''\<rparr>]),
       sent = [(roles_query_str, None)]\<rparr>)
   \<and> get_roles (\<lambda>log req. Inl (Exception ''connection failed'')) \<lparr>roles_attr = None, sent = []\<rparr>
     = (Inl (Exception ''connection failed''), \<lparr>roles_attr = None, sent = [(roles_query_str, None)]\<rparr>)
   \<and> get_roles_calls
       [\<lambda>log req. Inl (Exception ''connection failed''), \<lambda>log req. Inr (Roles_response [])]
       \<lparr>roles_attr = Some (Roles_response [\<lparr>result_id = ''1'', result_name = cp ''Admin''\<rparr>]), sent = [(roles_query_str, None)]\<rparr>
     = ([Inr (Roles_response [\<lparr>result_id = ''1'', result_name = cp ''Admin''\<rparr>]),
         Inr (Roles_response [\<lparr>result_id = ''1'', result_name = cp ''Admin''\<rparr>])],
        \<lparr>roles_attr = Some (Roles_response [\<lparr>result_id = ''1'', result_name = cp ''Admin''\<rparr>]), sent = [(roles_query_str, None)]\<rparr>)"
  using
    get_roles_fetched_once [where st = "\<lparr>roles_attr = None, sent = []\<rparr>"
      and cl = "\<lambda>log req. Inr (Roles_response [\<lparr>result_id = ''1'', result_name = cp ''Admin''\<rparr>])"
      and res = "Roles_response [\<lparr>result_id = ''1'', result_name = cp ''Admin''\<rparr>]"
      and cls = "[\<lambda>log req. Inr (Roles_response []), \<lambda>log req. Inl (Exception ''connection failed'')]"]
    get_roles_fetched_once [where st = "\<lparr>roles_attr = None, sent = []\<rparr>"
      and cl = "\<lambda>log req. Inl (Exception ''connection failed'')"
      and e = "Exception ''connection failed''"]
    get_roles_fetched_once [where st = "\<lparr>roles_attr = Some (Roles_response [\<lparr>result_id = ''1'', result_name = cp ''Admin''\<rparr>]), sent = [(roles_query_str, None)]\<rparr>"
      and res = "Roles_response [\<lparr>result_id = ''1'', result_name = cp ''Admin''\<rparr>]"
      and cls = "[\<lambda>log req. Inl (Exception ''connection failed''), \<lambda>log req. Inr (Roles_response [])]"]
  by simp

section \<open>Properties of ModelRun\<close>

text \<open>
  Claim C7. \<open>add_predictions\<close> raises a ValueError exactly when the argument is
  neither a \<open>str\<close>, nor a \<open>Path\<close>, nor an \<open>Iterable\<close>, and the message of that error
  names the type of the argument: it ends with \<open><class 'T'>\<close> for the type \<open>T\<close>, so
  that two types give two messages. For a \<open>str\<close> or a \<open>Path\<close> it calls the import
  from a file when the path exists and the import from a URL otherwise; for another
  \<open>Iterable\<close> it calls the import from objects.
\<close>

theorem add_predictions_dispatch:
  "(case predictions of
      Str s \<Rightarrow>
        add_predictions path_exists self name predictions =
          Inr (if path_exists s then Create_from_file s \<lparr>kw_client = client self, kw_model_run_id = uid self, kw_name = name\<rparr> else Create_from_url s \<lparr>kw_client = client self, kw_model_run_id = uid self, kw_name = name\<rparr>)
    | Path s \<Rightarrow>
        add_predictions path_exists self name predictions =
          Inr (if path_exists s then Create_from_file s \<lparr>kw_client = client self, kw_model_run_id = uid self, kw_name = name\<rparr> else Create_from_url s \<lparr>kw_client = client self, kw_model_run_id = uid self, kw_name = name\<rparr>)
    | Iterable rows \<Rightarrow>
        add_predictions path_exists self name predictions =
          Inr (Create_from_objects rows \<lparr>kw_client = client self, kw_model_run_id = uid self, kw_name = name\<rparr>)
    | Other type_name \<Rightarrow>
        add_predictions path_exists self name predictions =
          Inl (ValueError (''Invalid predictions given of type: <class ''
                 @ [CHR 0x27] @ type_name @ [CHR 0x27] @ ''>'')))
   \<and> ((\<exists>e. add_predictions path_exists self name predictions = Inl e)
        = (\<exists>type_name. predictions = Other type_name))
   \<and> ((add_predictions path_exists self name (Other t1 :: 'row predictions)
          = add_predictions path_exists self name (Other t2 :: 'row predictions))
        = (t1 = t2))"
  by (cases predictions) (simp_all add: Let_def type_repr_def)

theorem add_predictions_dispatch_witness:
  "add_predictions (\<lambda>p. p = ''preds.ndjson'') \<lparr>client = (\<lambda>log req. Inl (Exception ''offline'')), uid = ''run1''\<rparr> ''job'' (Str ''preds.ndjson'' :: unit predictions)
     = Inr (Create_from_file ''preds.ndjson'' \<lparr>kw_client = (\<lambda>log req. Inl (Exception ''offline'')), kw_model_run_id = ''run1'', kw_name = ''job''\<rparr>)
   \<and> add_predictions (\<lambda>p. p = ''preds.ndjson'') \<lparr>client = (\<lambda>log req. Inl (Exception ''offline'')), uid = ''run1''\<rparr> ''job'' (Path ''https://host/p.ndjson'' :: unit predictions)
     = Inr (Create_from_url ''https://host/p.ndjson'' \<lparr>kw_client = (\<lambda>log req. Inl (Exception ''offline'')), kw_model_run_id = ''run1'', kw_name = ''job''\<rparr>)
   \<and> add_predictions (\<lambda>p. p = ''preds.ndjson'') \<lparr>client = (\<lambda>log req. Inl (Exception ''offline'')), uid = ''run1''\<rparr> ''job'' (Iterable [(), ()])
     = Inr (Create_from_objects [(), ()] \<lparr>kw_client = (\<lambda>log req. Inl (Exception ''offline'')), kw_model_run_id = ''run1'', kw_name = ''job''\<rparr>)
   \<and> add_predictions (\<lambda>p. p = ''preds.ndjson'') \<lparr>client = (\<lambda>log req. Inl (Exception ''offline'')), uid = ''run1''\<rparr> ''job'' (Other ''int'' :: unit predictions)
     = Inl (ValueError (''Invalid predictions given of type: <class '' @ [CHR 0x27] @ ''int'' @ [CHR 0x27] @ ''>''))
   \<and> add_predictions (\<lambda>p. p = ''preds.ndjson'') \<lparr>client = (\<lambda>log req. Inl (Exception ''offline'')), uid = ''run1''\<rparr> ''job'' (Other ''float'' :: unit predictions)
     = Inl (ValueError (''Invalid predictions given of type: <class '' @ [CHR 0x27] @ ''float'' @ [CHR 0x27] @ ''>''))
   \<and> add_predictions (\<lambda>p. p = ''preds.ndjson'') \<lparr>client = (\<lambda>log req. Inl (Exception ''offline'')), uid = ''run1''\<rparr> ''job'' (Other ''int'' :: unit predictions)
     \<noteq> add_predictions (\<lambda>p. p = ''preds.ndjson'') \<lparr>client = (\<lambda>log req. Inl (Exception ''offline'')), uid = ''run1''\<rparr> ''job'' (Other ''float'' :: unit predictions)"
  using
    add_predictions_dispatch [where predictions = "Str ''preds.ndjson'' :: unit predictions"
      and path_exists = "(\<lambda>p. p = ''preds.ndjson'')" and self = "\<lparr>client = (\<lambda>log req. Inl (Exception ''offline'')), uid = ''run1''\<rparr>" and name = "''job''"]
    add_predictions_dispatch [where predictions = "Path ''https://host/p.ndjson'' :: unit predictions"
      and path_exists = "(\<lambda>p. p = ''preds.ndjson'')" and self = "\<lparr>client = (\<lambda>log req. Inl (Exception ''offline'')), uid = ''run1''\<rparr>" and name = "''job''"]
    add_predictions_dispatch [where predictions = "Iterable [(), ()]"
      and path_exists = "(\<lambda>p. p = ''preds.ndjson'')" and self = "\<lparr>client = (\<lambda>log req. Inl (Exception ''offline'')), uid = ''run1''\<rparr>" and name = "''job''"]
    add_predictions_dispatch [where predictions = "Other ''int'' :: unit predictions"
      and path_exists = "(\<lambda>p. p = ''preds.ndjson'')" and self = "\<lparr>client = (\<lambda>log req. Inl (Exception ''offline'')), uid = ''run1''\<rparr>" and name = "''job''" and ?t1.0 = "''int''" and ?t2.0 = "''float''"]
    add_predictions_dispatch [where predictions = "Other ''float'' :: unit predictions"
      and path_exists = "(\<lambda>p. p = ''preds.ndjson'')" and self = "\<lparr>client = (\<lambda>log req. Inl (Exception ''offline'')), uid = ''run1''\<rparr>" and name = "''job''"]
  by simp

text \<open>
  Claim C10. With an empty list of ids, \<open>upsert_labels\<close> and \<open>upsert_data_rows\<close>
  raise ValueError and leave the state of the process as it was: no request has been
  sent, so no task has been created.
\<close>

theorem upsert_empty_ids:
  "upsert_labels ops self [] timeout_seconds st
     = Some (Inl (ValueError ''Must provide at least one label id''), st)
   \<and> upsert_data_rows ops self [] timeout_seconds st
     = Some (Inl (ValueError ''Must provide at least one data row id''), st)"
  by (simp add: upsert_labels_def upsert_data_rows_def)

theorem upsert_empty_ids_witness:
  "upsert_labels (int_ops 100) \<lparr>client = (\<lambda>log req. Inr (Task_response ''createMEAModelRunLabelRegistrationTask'' ''t1'')), uid = ''run1''\<rparr> [] 60 \<lparr>roles_attr = None, sent = []\<rparr>
     = Some (Inl (ValueError ''Must provide at least one label id''), \<lparr>roles_attr = None, sent = []\<rparr>)
   \<and> upsert_data_rows (int_ops 100) \<lparr>client = (\<lambda>log req. Inr (Task_response ''createMEAModelRunLabelRegistrationTask'' ''t1'')), uid = ''run1''\<rparr> [] 60 \<lparr>roles_attr = None, sent = []\<rparr>
     = Some (Inl (ValueError ''Must provide at least one data row id''), \<lparr>roles_attr = None, sent = []\<rparr>)"
  using upsert_empty_ids [where self = "\<lparr>client = (\<lambda>log req. Inr (Task_response ''createMEAModelRunLabelRegistrationTask'' ''t1'')), uid = ''run1''\<rparr>" and ops = "int_ops 100"
      and timeout_seconds = 60 and st = "\<lparr>roles_attr = None, sent = []\<rparr>"]
  by simp

section \<open>Properties of the polling loop\<close>

lemma wait_complete:
  "status_fn w = (Inr res, w') \<Longrightarrow> status res = ''COMPLETE'' \<Longrightarrow>
   wait_until_done ops status_fn t s w = Some (Inr True, w')"
  by (subst wait_until_done.simps) simp

lemma wait_failed:
  "status_fn w = (Inr res, w') \<Longrightarrow> status res = ''FAILED'' \<Longrightarrow>
   wait_until_done ops status_fn t s w =
     Some (Inl (Exception (''MEA Import Failed. Details : ''
            @ (case errorMessage res of None \<Rightarrow> ''None'' | Some m \<Rightarrow> m))), w')"
  by (subst wait_until_done.simps) simp

lemma wait_timeout:
  "status_fn w = (Inr res, w') \<Longrightarrow> status res \<noteq> ''COMPLETE'' \<Longrightarrow> status res \<noteq> ''FAILED'' \<Longrightarrow>
   num_minus ops t s = Inr t' \<Longrightarrow> num_le_zero ops t' \<Longrightarrow>
   wait_until_done ops status_fn t s w =
     Some (Inl (TimeoutError (''Unable to complete import within '' @ num_str ops t' @ '' seconds.'')), w')"
  by (subst wait_until_done.simps) simp

lemma wait_step:
  "status_fn w = (Inr res, w') \<Longrightarrow> status res \<noteq> ''COMPLETE'' \<Longrightarrow> status res \<noteq> ''FAILED'' \<Longrightarrow>
   num_minus ops t s = Inr t' \<Longrightarrow> \<not> num_le_zero ops t' \<Longrightarrow> num_sleep ops s = None \<Longrightarrow>
   wait_until_done ops status_fn t s w = wait_until_done ops status_fn t' s w'"
  by (subst wait_until_done.simps) simp

lemma polls_Suc: "polls status_fn (Suc n) w = snd (status_fn (polls status_fn n w))"
  by (simp add: polls_def)

text \<open>
  \<open>k\<close> iterations that neither end the loop nor exhaust the budget take the loop to
  the budget after \<open>k\<close> iterations and to the world after \<open>k\<close> calls.
\<close>

lemma wait_steps:
  assumes "\<forall>j<k. \<exists>r. fst (status_fn (polls status_fn j w)) = Inr r
            \<and> status r \<noteq> ''COMPLETE'' \<and> status r \<noteq> ''FAILED''"
    and "\<forall>j<k. \<exists>b. budget ops t s (Suc j) = Inr b \<and> \<not> num_le_zero ops b"
    and "0 < k \<longrightarrow> num_sleep ops s = None"
  shows "\<exists>b. budget ops t s k = Inr b
           \<and> wait_until_done ops status_fn t s w =
               wait_until_done ops status_fn b s (polls status_fn k w)"
  using assms
proof (induction k)
  case 0
  show ?case by (simp add: polls_def)
next
  case (Suc k)
  from Suc.prems have sleep: "num_sleep ops s = None" by simp
  from Suc have "\<exists>b. budget ops t s k = Inr b
           \<and> wait_until_done ops status_fn t s w =
               wait_until_done ops status_fn b s (polls status_fn k w)"
    by simp
  then obtain b where b: "budget ops t s k = Inr b"
    and prev: "wait_until_done ops status_fn t s w =
               wait_until_done ops status_fn b s (polls status_fn k w)"
    by blast
  from Suc.prems(1) obtain r where
    r: "fst (status_fn (polls status_fn k w)) = Inr r"
      "status r \<noteq> ''COMPLETE''" "status r \<noteq> ''FAILED''"
    by blast
  from Suc.prems(2) obtain b' where
    b': "budget ops t s (Suc k) = Inr b'" "\<not> num_le_zero ops b'"
    by blast
  from b b'(1) have minus: "num_minus ops b s = Inr b'" by simp
  from r(1) have call: "status_fn (polls status_fn k w) = (Inr r, polls status_fn (Suc k) w)"
    by (simp add: polls_Suc prod_eq_iff)
  from wait_step [where status_fn = status_fn and w = "polls status_fn k w"
      and ops = ops and t = b and s = s, OF call r(2) r(3) minus b'(2) sleep] prev b'(1)
  show ?case by simp
qed

lemma wait_times_out:
  assumes "\<forall>j\<le>k. \<exists>r. fst (status_fn (polls status_fn j w)) = Inr r
            \<and> status r \<noteq> ''COMPLETE'' \<and> status r \<noteq> ''FAILED''"
    and "\<forall>j<k. \<exists>b. budget ops t s (Suc j) = Inr b \<and> \<not> num_le_zero ops b"
    and "0 < k \<longrightarrow> num_sleep ops s = None"
    and "budget ops t s (Suc k) = Inr b" and "num_le_zero ops b"
  shows "wait_until_done ops status_fn t s w =
           Some (Inl (TimeoutError (''Unable to complete import within ''
                  @ num_str ops b @ '' seconds.'')), polls status_fn (Suc k) w)"
proof -
  from assms(1) have "\<forall>j<k. \<exists>r. fst (status_fn (polls status_fn j w)) = Inr r
            \<and> status r \<noteq> ''COMPLETE'' \<and> status r \<noteq> ''FAILED''"
    by simp
  from wait_steps [OF this assms(2) assms(3)] obtain bk where
    bk: "budget ops t s k = Inr bk"
    and run: "wait_until_done ops status_fn t s w =
               wait_until_done ops status_fn bk s (polls status_fn k w)"
    by blast
  from assms(1) obtain r where
    r: "fst (status_fn (polls status_fn k w)) = Inr r"
      "status r \<noteq> ''COMPLETE''" "status r \<noteq> ''FAILED''"
    by blast
  from r(1) have call: "status_fn (polls status_fn k w) = (Inr r, polls status_fn (Suc k) w)"
    by (simp add: polls_Suc prod_eq_iff)
  from bk assms(4) have minus: "num_minus ops bk s = Inr b" by simp
  from wait_timeout [where status_fn = status_fn and w = "polls status_fn k w"
      and ops = ops and t = bk and s = s, OF call r(2) r(3) minus assms(5)] run
  show ?thesis by simp
qed

lemma budget_int: "budget (int_ops max_sleep) t s k = Inr (t - int k * s)"
  by (induction k) (simp_all add: int_ops_def algebra_simps)

lemma wait_times_out_int:
  assumes s: "0 < s" "s \<le> max_sleep"
    and pending: "\<forall>j. \<exists>r. fst (status_fn (polls status_fn j w)) = Inr r
            \<and> status r \<noteq> ''COMPLETE'' \<and> status r \<noteq> ''FAILED''"
  shows "\<exists>k. 0 < k \<and> t - int k * s \<le> 0
           \<and> (\<forall>j. 0 < j \<and> j < k \<longrightarrow> 0 < t - int j * s)
           \<and> wait_until_done (int_ops max_sleep) status_fn t s w =
               Some (Inl (TimeoutError (''Unable to complete import within ''
                      @ str_int (t - int k * s) @ '' seconds.'')), polls status_fn k w)"
proof -
  define m where "m = (LEAST m. t - int (Suc m) * s \<le> 0)"
  have ex: "t - int (Suc (nat t)) * s \<le> 0"
  proof -
    have "t < int (Suc (nat t))" by simp
    also have "\<dots> \<le> int (Suc (nat t)) * s" using s(1) by simp
    finally show ?thesis by simp
  qed
  then have fin: "t - int (Suc m) * s \<le> 0"
    unfolding m_def by (rule LeastI)
  have before: "0 < t - int (Suc j) * s" if "j < m" for j
    using not_less_Least [of j "\<lambda>m. t - int (Suc m) * s \<le> 0"] that
    unfolding m_def by auto
  have sleep: "num_sleep (int_ops max_sleep) s = None"
    using s by (simp add: int_ops_def)
  have le: "num_le_zero (int_ops max_sleep) x = (x \<le> 0)" for x
    by (simp add: int_ops_def)
  have str: "num_str (int_ops max_sleep) x = str_int x" for x
    by (simp add: int_ops_def)
  have "wait_until_done (int_ops max_sleep) status_fn t s w =
      Some (Inl (TimeoutError (''Unable to complete import within ''
             @ num_str (int_ops max_sleep) (t - int (Suc m) * s) @ '' seconds.'')),
            polls status_fn (Suc m) w)"
  proof (rule wait_times_out)
    show "\<forall>j\<le>m. \<exists>r. fst (status_fn (polls status_fn j w)) = Inr r
            \<and> status r \<noteq> ''COMPLETE'' \<and> status r \<noteq> ''FAILED''"
      using pending by blast
    show "\<forall>j<m. \<exists>b. budget (int_ops max_sleep) t s (Suc j) = Inr b
            \<and> \<not> num_le_zero (int_ops max_sleep) b"
      using before by (simp add: budget_int le del: budget.simps) (metis not_le)
    show "0 < m \<longrightarrow> num_sleep (int_ops max_sleep) s = None"
      using sleep by simp
    show "budget (int_ops max_sleep) t s (Suc m) = Inr (t - int (Suc m) * s)"
      by (rule budget_int)
    show "num_le_zero (int_ops max_sleep) (t - int (Suc m) * s)"
      using fin by (simp add: le)
  qed
  then have result: "wait_until_done (int_ops max_sleep) status_fn t s w =
      Some (Inl (TimeoutError (''Unable to complete import within ''
             @ str_int (t - int (Suc m) * s) @ '' seconds.'')), polls status_fn (Suc m) w)"
    by (simp add: str)
  have "\<forall>j. 0 < j \<and> j < Suc m \<longrightarrow> 0 < t - int j * s"
  proof (intro allI impI)
    fix j assume j: "0 < j \<and> j < Suc m"
    then obtain i where "j = Suc i" "i < m" by (cases j) auto
    with before show "0 < t - int j * s" by simp
  qed
  with fin result show ?thesis by (intro exI [of _ "Suc m"]) simp
qed

text \<open>
  When no call returns a final status, the budget is never at most 0 and neither the
  subtraction nor the sleep raises, the loop does not return: this is what happens on
  floats for a budget that the subtraction leaves as it was.
\<close>

lemma polls_shift: "polls status_fn (Suc j) w = polls status_fn j (snd (status_fn w))"
  by (induction j) (simp_all add: polls_def)

lemma budget_shift:
  "num_minus ops t s = Inr b \<Longrightarrow> budget ops t s (Suc j) = budget ops b s j"
  by (induction j) simp_all

lemma never_expires_step:
  assumes c: "never_expires ops status_fn t s w"
  shows "\<exists>r b. status_fn w = (Inr r, snd (status_fn w))
           \<and> status r \<noteq> ''COMPLETE'' \<and> status r \<noteq> ''FAILED''
           \<and> num_minus ops t s = Inr b \<and> \<not> num_le_zero ops b \<and> num_sleep ops s = None
           \<and> never_expires ops status_fn b s (snd (status_fn w))"
proof -
  from c obtain r where r: "fst (status_fn (polls status_fn 0 w)) = Inr r"
    "status r \<noteq> ''COMPLETE''" "status r \<noteq> ''FAILED''"
    unfolding never_expires_def by blast
  then have call: "status_fn w = (Inr r, snd (status_fn w))"
    by (simp add: polls_def prod_eq_iff)
  from c obtain b where b: "budget ops t s (Suc 0) = Inr b" "\<not> num_le_zero ops b"
    unfolding never_expires_def by blast
  then have minus: "num_minus ops t s = Inr b" by simp
  from c have sleep: "num_sleep ops s = None"
    unfolding never_expires_def by simp
  have "never_expires ops status_fn b s (snd (status_fn w))"
    unfolding never_expires_def
  proof (intro conjI allI)
    fix j
    from c have "\<exists>r. fst (status_fn (polls status_fn (Suc j) w)) = Inr r
        \<and> status r \<noteq> ''COMPLETE'' \<and> status r \<noteq> ''FAILED''"
      unfolding never_expires_def by blast
    then show "\<exists>r. fst (status_fn (polls status_fn j (snd (status_fn w)))) = Inr r
        \<and> status r \<noteq> ''COMPLETE'' \<and> status r \<noteq> ''FAILED''"
      by (simp only: polls_shift)
  next
    fix j
    from c have "\<exists>b'. budget ops t s (Suc (Suc j)) = Inr b' \<and> \<not> num_le_zero ops b'"
      unfolding never_expires_def by blast
    then show "\<exists>b'. budget ops b s (Suc j) = Inr b' \<and> \<not> num_le_zero ops b'"
      by (simp only: budget_shift [OF minus])
  next
    show "num_sleep ops s = None" by (rule sleep)
  qed
  with call r(2,3) minus b(2) sleep show ?thesis by blast
qed

lemma wait_never_returns:
  assumes "never_expires ops status_fn t s w"
  shows "wait_until_done ops status_fn t s w = None"
proof (rule ccontr)
  assume "wait_until_done ops status_fn t s w \<noteq> None"
  then obtain y where y: "wait_until_done ops status_fn t s w = Some y" by auto
  have "\<not> never_expires ops status_fn t s w"
  proof (rule wait_until_done.raw_induct
      [where P = "\<lambda>ops status_fn t s w y. \<not> never_expires ops status_fn t s w", OF _ y],
      goal_cases)
    case (1 loop ops status_fn t s w y)
    show ?case
    proof
      assume "never_expires ops status_fn t s w"
      from never_expires_step [OF this] obtain r b where
        call: "status_fn w = (Inr r, snd (status_fn w))"
        and r: "status r \<noteq> ''COMPLETE''" "status r \<noteq> ''FAILED''"
        and b: "num_minus ops t s = Inr b" "\<not> num_le_zero ops b" "num_sleep ops s = None"
        and nxt: "never_expires ops status_fn b s (snd (status_fn w))"
        by blast
      from 1(2) r b have "loop ops status_fn b s (snd (status_fn w)) = Some y"
        by (subst (asm) call) simp
      from 1(1) [OF this] nxt show False by blast
    qed
  qed
  with assms show False by blast
qed

text \<open>
  Claim C4. The polling loop \<open>_wait_until_done\<close>, for budgets of any numbers. When the
  first call of the status function returns the status FAILED, the loop raises the
  failure exception whose message carries the \<open>errorMessage\<close> of that result. When
  every call of the status function returns a status other than COMPLETE and FAILED,
  the loop raises TimeoutError, another kind of error than the failure, at the first
  iteration at which the budget, less the sleeping time for each iteration so far, is
  at most 0 (the sleeps before it not raising); its message carries that budget. For
  integers and a sleeping time that is positive (\<open>upsert_labels\<close> and
  \<open>upsert_data_rows\<close> pass none, so that it is 5) there is such an iteration. When a
  call that the loop makes returns COMPLETE, the loop returns normally, with \<open>True\<close>.
\<close>

theorem wait_until_done_outcomes:
  fixes status_fn :: "'w \<Rightarrow> (error + status_result) \<times> 'w"
    and ops :: "'b number_ops"
  shows
  "(status_fn w = (Inr res, w') \<and> status res = ''FAILED'' \<longrightarrow>
      wait_until_done ops status_fn timeout_seconds sleep_time w =
        Some (Inl (Exception (''MEA Import Failed. Details : ''
               @ (case errorMessage res of None \<Rightarrow> ''None'' | Some m \<Rightarrow> m))), w'))
   \<and> ((\<forall>j. \<exists>r. fst (status_fn (polls status_fn j w)) = Inr r
                 \<and> status r \<noteq> ''COMPLETE'' \<and> status r \<noteq> ''FAILED'')
        \<and> (\<forall>j<k. \<exists>b. budget ops timeout_seconds sleep_time (Suc j) = Inr b
                 \<and> \<not> num_le_zero ops b)
        \<and> (0 < k \<longrightarrow> num_sleep ops sleep_time = None)
        \<and> budget ops timeout_seconds sleep_time (Suc k) = Inr b \<and> num_le_zero ops b \<longrightarrow>
      wait_until_done ops status_fn timeout_seconds sleep_time w =
        Some (Inl (TimeoutError (''Unable to complete import within ''
               @ num_str ops b @ '' seconds.'')), polls status_fn (Suc k) w))
   \<and> (0 < int_sleep \<and> int_sleep \<le> max_sleep
        \<and> (\<forall>j. \<exists>r. fst (status_fn (polls status_fn j w)) = Inr r
                 \<and> status r \<noteq> ''COMPLETE'' \<and> status r \<noteq> ''FAILED'') \<longrightarrow>
      (\<exists>n. 0 < n \<and> int_timeout - int n * int_sleep \<le> 0
         \<and> (\<forall>j. 0 < j \<and> j < n \<longrightarrow> 0 < int_timeout - int j * int_sleep)
         \<and> wait_until_done (int_ops max_sleep) status_fn int_timeout int_sleep w =
             Some (Inl (TimeoutError (''Unable to complete import within ''
                    @ str_int (int_timeout - int n * int_sleep) @ '' seconds.'')),
                   polls status_fn n w)))
   \<and> ((\<forall>j<m. \<exists>r. fst (status_fn (polls status_fn j w)) = Inr r
                 \<and> status r \<noteq> ''COMPLETE'' \<and> status r \<noteq> ''FAILED'')
        \<and> (\<forall>j<m. \<exists>b. budget ops timeout_seconds sleep_time (Suc j) = Inr b
                 \<and> \<not> num_le_zero ops b)
        \<and> (0 < m \<longrightarrow> num_sleep ops sleep_time = None)
        \<and> status_fn (polls status_fn m w) = (Inr res, w') \<and> status res = ''COMPLETE'' \<longrightarrow>
      wait_until_done ops status_fn timeout_seconds sleep_time w = Some (Inr True, w'))
   \<and> TimeoutError x \<noteq> Exception y"
proof (intro conjI impI)
  assume "status_fn w = (Inr res, w') \<and> status res = ''FAILED''"
  then show "wait_until_done ops status_fn timeout_seconds sleep_time w =
        Some (Inl (Exception (''MEA Import Failed. Details : ''
               @ (case errorMessage res of None \<Rightarrow> ''None'' | Some m \<Rightarrow> m))), w')"
    by (simp add: wait_failed)
next
  assume a: "(\<forall>j. \<exists>r. fst (status_fn (polls status_fn j w)) = Inr r
                 \<and> status r \<noteq> ''COMPLETE'' \<and> status r \<noteq> ''FAILED'')
        \<and> (\<forall>j<k. \<exists>b. budget ops timeout_seconds sleep_time (Suc j) = Inr b
                 \<and> \<not> num_le_zero ops b)
        \<and> (0 < k \<longrightarrow> num_sleep ops sleep_time = None)
        \<and> budget ops timeout_seconds sleep_time (Suc k) = Inr b \<and> num_le_zero ops b"
  show "wait_until_done ops status_fn timeout_seconds sleep_time w =
        Some (Inl (TimeoutError (''Unable to complete import within ''
               @ num_str ops b @ '' seconds.'')), polls status_fn (Suc k) w)"
  proof (rule wait_times_out)
    show "\<forall>j\<le>k. \<exists>r. fst (status_fn (polls status_fn j w)) = Inr r
            \<and> status r \<noteq> ''COMPLETE'' \<and> status r \<noteq> ''FAILED''"
      using a by blast
    show "\<forall>j<k. \<exists>b. budget ops timeout_seconds sleep_time (Suc j) = Inr b
            \<and> \<not> num_le_zero ops b"
      using a by blast
    show "0 < k \<longrightarrow> num_sleep ops sleep_time = None" using a by blast
    show "budget ops timeout_seconds sleep_time (Suc k) = Inr b" using a by blast
    show "num_le_zero ops b" using a by blast
  qed
next
  assume "0 < int_sleep \<and> int_sleep \<le> max_sleep
        \<and> (\<forall>j. \<exists>r. fst (status_fn (polls status_fn j w)) = Inr r
                 \<and> status r \<noteq> ''COMPLETE'' \<and> status r \<noteq> ''FAILED'')"
  then show "\<exists>n. 0 < n \<and> int_timeout - int n * int_sleep \<le> 0
         \<and> (\<forall>j. 0 < j \<and> j < n \<longrightarrow> 0 < int_timeout - int j * int_sleep)
         \<and> wait_until_done (int_ops max_sleep) status_fn int_timeout int_sleep w =
             Some (Inl (TimeoutError (''Unable to complete import within ''
                    @ str_int (int_timeout - int n * int_sleep) @ '' seconds.'')),
                   polls status_fn n w)"
    using wait_times_out_int [of int_sleep max_sleep status_fn w int_timeout] by blast
next
  assume a: "(\<forall>j<m. \<exists>r. fst (status_fn (polls status_fn j w)) = Inr r
                 \<and> status r \<noteq> ''COMPLETE'' \<and> status r \<noteq> ''FAILED'')
        \<and> (\<forall>j<m. \<exists>b. budget ops timeout_seconds sleep_time (Suc j) = Inr b
                 \<and> \<not> num_le_zero ops b)
        \<and> (0 < m \<longrightarrow> num_sleep ops sleep_time = None)
        \<and> status_fn (polls status_fn m w) = (Inr res, w') \<and> status res = ''COMPLETE''"
  then have "\<exists>b. budget ops timeout_seconds sleep_time m = Inr b
           \<and> wait_until_done ops status_fn timeout_seconds sleep_time w =
               wait_until_done ops status_fn b sleep_time (polls status_fn m w)"
    by (intro wait_steps) blast+
  then obtain bm where "wait_until_done ops status_fn timeout_seconds sleep_time w =
      wait_until_done ops status_fn bm sleep_time (polls status_fn m w)"
    by blast
  also from a have "\<dots> = Some (Inr True, w')"
    by (intro wait_complete [where res = res]) simp_all
  finally show "wait_until_done ops status_fn timeout_seconds sleep_time w = Some (Inr True, w')" .
next
  show "TimeoutError x \<noteq> Exception y" by simp
qed

theorem wait_until_done_outcomes_witness:
  "wait_until_done (int_ops 100)
       (\<lambda>n::nat. (Inr \<lparr>status = ''FAILED'', errorMessage = Some ''bad label''\<rparr>, Suc n)) 60 5 0
     = Some (Inl (Exception ''MEA Import Failed. Details : bad label''), 1)
   \<and> wait_until_done (int_ops 100)
       (\<lambda>n::nat. (Inr \<lparr>status = ''RUNNING'', errorMessage = None\<rparr>, Suc n)) 60 5 0
     = Some (Inl (TimeoutError ''Unable to complete import within 0 seconds.''), 12)
   \<and> wait_until_done
       \<lparr>num_minus = (\<lambda>x y. Inr (x - y)), num_le_zero = (\<lambda>x. x \<le> 0),
        num_str = (\<lambda>x. if x = - 1 / 2 then ''-0.5'' else ''''),
        num_sleep = (\<lambda>x. None), num_literal = rat_of_int\<rparr>
       (\<lambda>n::nat. (Inr \<lparr>status = ''RUNNING'', errorMessage = None\<rparr>, Suc n)) (5 / 2) 1 0
     = Some (Inl (TimeoutError ''Unable to complete import within -0.5 seconds.''), 3)
   \<and> wait_until_done (int_ops 100)
       (\<lambda>n::nat. (Inr \<lparr>status = (if n < 2 then ''RUNNING'' else ''COMPLETE''), errorMessage = None\<rparr>, Suc n)) 60 5 0
     = Some (Inr True, 3)"
proof -
  let ?failing = "\<lambda>n::nat. (Inr \<lparr>status = ''FAILED'', errorMessage = Some ''bad label''\<rparr> :: error + status_result, Suc n)"
  let ?running = "\<lambda>n::nat. (Inr \<lparr>status = ''RUNNING'', errorMessage = None\<rparr> :: error + status_result, Suc n)"
  let ?completing = "\<lambda>n::nat. (Inr \<lparr>status = (if n < 2 then ''RUNNING'' else ''COMPLETE''), errorMessage = None\<rparr>
                        :: error + status_result, Suc n)"
  let ?fractions = "\<lparr>num_minus = (\<lambda>x y. Inr (x - y)), num_le_zero = (\<lambda>x. x \<le> 0),
        num_str = (\<lambda>x. if x = - 1 / 2 then ''-0.5'' else ''''),
        num_sleep = (\<lambda>x. None), num_literal = rat_of_int\<rparr> :: rat number_ops"
  have failed: "wait_until_done (int_ops 100) ?failing 60 5 0
      = Some (Inl (Exception ''MEA Import Failed. Details : bad label''), 1)"
    using wait_until_done_outcomes [where status_fn = ?failing and w = 0 and w' = 1
        and res = "\<lparr>status = ''FAILED'', errorMessage = Some ''bad label''\<rparr>"
        and ops = "int_ops 100" and timeout_seconds = 60 and sleep_time = 5
        and k = 0 and b = 0 and m = 0 and int_timeout = 60 and int_sleep = 0 and max_sleep = 100]
    by simp
  have polls_running: "polls ?running k 0 = k" for k
    by (induction k) (simp_all add: polls_def)
  have "\<exists>n. 0 < n \<and> 60 - int n * 5 \<le> 0
         \<and> (\<forall>j. 0 < j \<and> j < n \<longrightarrow> 0 < 60 - int j * 5)
         \<and> wait_until_done (int_ops 100) ?running 60 5 0 =
             Some (Inl (TimeoutError (''Unable to complete import within ''
                    @ str_int (60 - int n * 5) @ '' seconds.'')), polls ?running n 0)"
    using wait_until_done_outcomes [where status_fn = ?running and w = 0
        and int_timeout = 60 and int_sleep = 5 and max_sleep = 100
        and ops = "int_ops 100" and timeout_seconds = 0 and sleep_time = 0
        and k = 0 and b = 1 and m = 0 and w' = 0
        and res = "\<lparr>status = ''FAILED'', errorMessage = None\<rparr>"]
    by (simp add: polls_running)
  then obtain n where n: "0 < n" "60 - int n * 5 \<le> 0"
    "\<forall>j. 0 < j \<and> j < n \<longrightarrow> 0 < 60 - int j * 5"
    and run: "wait_until_done (int_ops 100) ?running 60 5 0 =
             Some (Inl (TimeoutError (''Unable to complete import within ''
                    @ str_int (60 - int n * 5) @ '' seconds.'')), polls ?running n 0)"
    by blast
  have "n = 12"
  proof -
    from n(2) have "12 \<le> n" by simp
    moreover have "\<not> 12 < n"
    proof
      assume "12 < n"
      then have "0 < 60 - int 12 * 5" by (intro n(3) [rule_format]) simp
      then show False by simp
    qed
    ultimately show ?thesis by simp
  qed
  with run have timed_out: "wait_until_done (int_ops 100) ?running 60 5 0
      = Some (Inl (TimeoutError ''Unable to complete import within 0 seconds.''), 12)"
    by (simp add: polls_running str_int_def)
  have b1: "budget ?fractions (5 / 2) 1 (Suc 0) = Inr (3 / 2)" by simp
  have b2: "budget ?fractions (5 / 2) 1 (Suc (Suc 0)) = Inr (1 / 2)" by simp
  have b3: "budget ?fractions (5 / 2) 1 (Suc 2) = Inr (- 1 / 2)"
    by (simp add: numeral_2_eq_2)
  have before: "\<forall>j<2. \<exists>b. budget ?fractions (5 / 2) 1 (Suc j) = Inr b \<and> \<not> num_le_zero ?fractions b"
  proof (intro allI impI)
    fix j :: nat assume "j < 2"
    then consider "j = 0" | "j = Suc 0" by linarith
    then show "\<exists>b. budget ?fractions (5 / 2) 1 (Suc j) = Inr b \<and> \<not> num_le_zero ?fractions b"
    proof cases
      case 1 with b1 show ?thesis by (intro exI [of _ "3 / 2"]) simp
    next
      case 2 with b2 show ?thesis by (intro exI [of _ "1 / 2"]) simp
    qed
  qed
  have fractional: "wait_until_done ?fractions ?running (5 / 2) 1 0
      = Some (Inl (TimeoutError ''Unable to complete import within -0.5 seconds.''), 3)"
    using wait_until_done_outcomes [where status_fn = ?running and w = 0 and ops = ?fractions
        and timeout_seconds = "5 / 2" and sleep_time = 1 and k = 2 and b = "- 1 / 2"
        and m = 0 and w' = 0 and int_timeout = 0 and int_sleep = 0 and max_sleep = 0
        and res = "\<lparr>status = ''FAILED'', errorMessage = None\<rparr>"]
      before b3
    by (simp add: polls_running del: budget.simps)
  have polls_completing: "polls ?completing k 0 = k" for k
    by (induction k) (simp_all add: polls_def)
  have le: "num_le_zero (int_ops 100) x = (x \<le> 0)" for x
    by (simp add: int_ops_def)
  have sleep5: "num_sleep (int_ops 100) 5 = None"
    by (simp add: int_ops_def)
  have within: "\<forall>j<2. \<exists>b. budget (int_ops 100) 60 5 (Suc j) = Inr b \<and> \<not> num_le_zero (int_ops 100) b"
    by (auto simp: budget_int le simp del: budget.simps)
  have completed: "wait_until_done (int_ops 100) ?completing 60 5 0 = Some (Inr True, 3)"
    using wait_until_done_outcomes [where status_fn = ?completing and w = 0 and m = 2 and w' = 3
        and res = "\<lparr>status = ''COMPLETE'', errorMessage = None\<rparr>"
        and ops = "int_ops 100" and timeout_seconds = 60 and sleep_time = 5
        and k = 0 and b = 1 and int_timeout = 0 and int_sleep = 0 and max_sleep = 0]
      within
    by (simp add: polls_completing sleep5 del: budget.simps)
  from failed timed_out fractional completed show ?thesis by simp
qed

end
